theory Spec2Isabelle
  imports Complex_Main
begin

section \<open>Python values and exceptions\<close>

text \<open>
  The client of \<^verbatim>\<open>src/agent/service_registry.py\<close> stores whatever the registry's JSON
  answer holds, and Python does not check the annotated types. Values that come from a
  parsed JSON body or from keyword arguments are therefore modelled by one datatype of
  Python values. \<open>PNone\<close> is Python's \<^verbatim>\<open>None\<close> (JSON \<^verbatim>\<open>null\<close>); a \<^verbatim>\<open>dict\<close> with string
  keys is an association list read with \<open>map_of\<close>. A Python float is modelled by the real
  number it denotes: rounding, infinities and NaN are outside the model.
\<close>

datatype pyval =
    PNone
  | PBool bool
  | PInt int
  | PFloat real
  | PStr string
  | PList "pyval list"
  | PDict "(string \<times> pyval) list"

text \<open>
  The exceptions the module can meet. All but the last two derive from Python's
  \<^verbatim>\<open>Exception\<close>; \<^verbatim>\<open>KeyboardInterrupt\<close> and \<^verbatim>\<open>SystemExit\<close> derive from \<^verbatim>\<open>BaseException\<close>
  only, so \<^verbatim>\<open>except Exception\<close> lets them through.
\<close>

datatype error =
    RuntimeError string
  | AttributeError string
  | KeyError string
  | TypeError string
  | ImportError string
  | OSError string
  | RequestException string
  | HTTPError nat
  | JSONDecodeError
  | CallbackError string
  | KeyboardInterrupt
  | SystemExit

fun is_Exception :: "error \<Rightarrow> bool" where
  "is_Exception KeyboardInterrupt = False"
| "is_Exception SystemExit = False"
| "is_Exception _ = True"

text \<open>Truth value of a Python object, as tested by \<^verbatim>\<open>if x\<close> and \<^verbatim>\<open>not x\<close>.\<close>

fun truthy :: "pyval \<Rightarrow> bool" where
  "truthy PNone = False"
| "truthy (PBool b) = b"
| "truthy (PInt n) = (n \<noteq> 0)"
| "truthy (PFloat x) = (x \<noteq> 0)"
| "truthy (PStr s) = (s \<noteq> [])"
| "truthy (PList xs) = (xs \<noteq> [])"
| "truthy (PDict kvs) = (kvs \<noteq> [])"

text \<open>\<^verbatim>\<open>x == 0\<close>: an int, a float and a bool compare by number; nothing else equals 0.\<close>

fun py_eq_zero :: "pyval \<Rightarrow> bool" where
  "py_eq_zero (PInt n) = (n = 0)"
| "py_eq_zero (PFloat x) = (x = 0)"
| "py_eq_zero (PBool b) = (\<not> b)"
| "py_eq_zero _ = False"

text \<open>\<^verbatim>\<open>x == ""\<close>: only the empty string equals it.\<close>

fun py_eq_empty_str :: "pyval \<Rightarrow> bool" where
  "py_eq_empty_str (PStr s) = (s = [])"
| "py_eq_empty_str _ = False"

text \<open>
  \<^verbatim>\<open>x.get(k)\<close>: only a dict has the method; a missing key gives \<^verbatim>\<open>None\<close>.
  \<^verbatim>\<open>x[k]\<close> with a string key: a dict raises \<^verbatim>\<open>KeyError\<close> on a missing key, every other
  JSON value raises \<^verbatim>\<open>TypeError\<close> (not subscriptable, or indices must be integers).
\<close>

fun py_get :: "pyval \<Rightarrow> string \<Rightarrow> error + pyval" where
  "py_get (PDict kvs) k = Inr (case map_of kvs k of None \<Rightarrow> PNone | Some v \<Rightarrow> v)"
| "py_get _ k = Inl (AttributeError ''get'')"

fun py_getitem :: "pyval \<Rightarrow> string \<Rightarrow> error + pyval" where
  "py_getitem (PDict kvs) k = (case map_of kvs k of None \<Rightarrow> Inl (KeyError k) | Some v \<Rightarrow> Inr v)"
| "py_getitem _ k = Inl (TypeError ''subscript'')"

text \<open>\<^verbatim>\<open>kwargs.get(k, default)\<close> on the keyword arguments of a call.\<close>

definition kwargs_get :: "(string \<times> pyval) list \<Rightarrow> string \<Rightarrow> pyval \<Rightarrow> pyval" where
  "kwargs_get kwargs k dflt = (case map_of kwargs k of None \<Rightarrow> dflt | Some v \<Rightarrow> v)"

section \<open>The dataclasses\<close>

record ServiceCapabilities =
  supported_models :: "string list"
  supported_resolutions :: "string list"
  max_batch_size :: int
  supported_formats :: "string list"
  inference_steps_range :: "int list"
  guidance_scale_range :: "real list"
  custom_capabilities :: "(string \<times> pyval) list"

record ResourceSpec =
  gpu_memory :: string
  gpu_count :: int
  gpu_model :: string
  cpu_cores :: int
  memory :: string

record PerformanceSpec =
  estimated_latency_ms :: int
  throughput_per_minute :: int
  warmup_time_seconds :: int

definition ServiceCapabilities_default :: ServiceCapabilities where
  "ServiceCapabilities_default =
     \<lparr>supported_models = [], supported_resolutions = [], max_batch_size = 4,
      supported_formats = [''png'', ''jpeg''], inference_steps_range = [10, 100],
      guidance_scale_range = [1, 20], custom_capabilities = []\<rparr>"

definition ResourceSpec_default :: ResourceSpec where
  "ResourceSpec_default =
     \<lparr>gpu_memory = ''16GB'', gpu_count = 1, gpu_model = ''A10'', cpu_cores = 8,
      memory = ''32GB''\<rparr>"

definition PerformanceSpec_default :: PerformanceSpec where
  "PerformanceSpec_default =
     \<lparr>estimated_latency_ms = 2000, throughput_per_minute = 30, warmup_time_seconds = 60\<rparr>"

text \<open>
  \<open>RegisterRequest\<close> and \<open>HeartbeatRequest\<close>: the fields carry a prefix because the
  client has attributes of the same names.
\<close>

record RegisterRequest =
  reg_service_type :: string
  reg_version :: string
  reg_hostname :: pyval
  reg_ip_address :: pyval
  reg_port :: pyval
  reg_capabilities :: ServiceCapabilities
  reg_resources :: ResourceSpec
  reg_performance :: PerformanceSpec

record HeartbeatRequest =
  hb_service_id :: pyval
  hb_timestamp :: string
  hb_current_load :: real
  hb_queue_size :: pyval
  hb_processed_count :: pyval
  hb_error_count :: pyval
  hb_cpu_utilization :: real
  hb_gpu_utilization :: real
  hb_memory_usage :: int
  hb_token :: pyval

text \<open>\<^verbatim>\<open>dataclasses.asdict\<close>, which also converts the nested dataclasses.\<close>

definition asdict_ServiceCapabilities :: "ServiceCapabilities \<Rightarrow> pyval" where
  "asdict_ServiceCapabilities c = PDict
     [(''supported_models'', PList (map PStr (supported_models c))),
      (''supported_resolutions'', PList (map PStr (supported_resolutions c))),
      (''max_batch_size'', PInt (max_batch_size c)),
      (''supported_formats'', PList (map PStr (supported_formats c))),
      (''inference_steps_range'', PList (map PInt (inference_steps_range c))),
      (''guidance_scale_range'', PList (map PFloat (guidance_scale_range c))),
      (''custom_capabilities'', PDict (custom_capabilities c))]"

definition asdict_ResourceSpec :: "ResourceSpec \<Rightarrow> pyval" where
  "asdict_ResourceSpec r = PDict
     [(''gpu_memory'', PStr (gpu_memory r)), (''gpu_count'', PInt (gpu_count r)),
      (''gpu_model'', PStr (gpu_model r)), (''cpu_cores'', PInt (cpu_cores r)),
      (''memory'', PStr (memory r))]"

definition asdict_PerformanceSpec :: "PerformanceSpec \<Rightarrow> pyval" where
  "asdict_PerformanceSpec s = PDict
     [(''estimated_latency_ms'', PInt (estimated_latency_ms s)),
      (''throughput_per_minute'', PInt (throughput_per_minute s)),
      (''warmup_time_seconds'', PInt (warmup_time_seconds s))]"

definition asdict_RegisterRequest :: "RegisterRequest \<Rightarrow> pyval" where
  "asdict_RegisterRequest r = PDict
     [(''service_type'', PStr (reg_service_type r)), (''version'', PStr (reg_version r)),
      (''hostname'', reg_hostname r), (''ip_address'', reg_ip_address r),
      (''port'', reg_port r),
      (''capabilities'', asdict_ServiceCapabilities (reg_capabilities r)),
      (''resources'', asdict_ResourceSpec (reg_resources r)),
      (''performance'', asdict_PerformanceSpec (reg_performance r))]"

definition asdict_HeartbeatRequest :: "HeartbeatRequest \<Rightarrow> pyval" where
  "asdict_HeartbeatRequest r = PDict
     [(''service_id'', hb_service_id r), (''timestamp'', PStr (hb_timestamp r)),
      (''current_load'', PFloat (hb_current_load r)), (''queue_size'', hb_queue_size r),
      (''processed_count'', hb_processed_count r), (''error_count'', hb_error_count r),
      (''cpu_utilization'', PFloat (hb_cpu_utilization r)),
      (''gpu_utilization'', PFloat (hb_gpu_utilization r)),
      (''memory_usage'', PInt (hb_memory_usage r)), (''token'', hb_token r)]"

section \<open>The world outside the module\<close>

text \<open>
  What the libraries answer is not in the source, so each call of one is a field of an
  environment: the model holds for every answer they can give.
  \<^item> \<open>post url json timeout\<close> is \<^verbatim>\<open>requests.post(url, json=..., timeout=...)\<close>: a transport
    failure, or a response with its HTTP status and its body parsed as JSON (\<open>None\<close>
    when the body is not JSON, where \<^verbatim>\<open>response.json()\<close> raises).
  \<^item> \<open>time_utcnow\<close> is the value of \<^verbatim>\<open>time.utcnow().isoformat()\<close>.
  \<^item> \<open>cpu_percent\<close> holds the two readings of \<^verbatim>\<open>psutil.cpu_percent()\<close> of one heartbeat,
    in the order of evaluation; \<open>virtual_memory_used\<close> is \<^verbatim>\<open>psutil.virtual_memory().used\<close>.
  \<^item> \<open>getGPUs\<close> is \<^verbatim>\<open>import GPUtil; GPUtil.getGPUs()\<close>: an exception, or the loads of the
    GPUs found.
  \<^item> \<open>gethostname\<close>, \<open>gethostbyname\<close> are the functions of \<^verbatim>\<open>socket\<close>.
  \<^item> \<open>event_wait flag timeout\<close> is \<^verbatim>\<open>threading.Event.wait(timeout)\<close> on an event whose
    flag is \<open>flag\<close> when the wait begins.
  \<^item> \<open>join_ended\<close> tells whether a thread joined with \<^verbatim>\<open>join(timeout=5)\<close> has ended when
    the join returns (\<open>False\<close>: the five seconds ran out first).
\<close>

record response =
  status_code :: nat
  body :: "pyval option"

record env =
  post :: "string \<Rightarrow> pyval \<Rightarrow> nat \<Rightarrow> error + response"
  time_utcnow :: "error + string"
  cpu_percent :: "real \<times> real"
  virtual_memory_used :: int
  getGPUs :: "error + real list"
  gethostname :: string
  gethostbyname :: "pyval \<Rightarrow> error + string"
  event_wait :: "bool \<Rightarrow> pyval \<Rightarrow> error + bool"
  join_ended :: bool

text \<open>
  The module does \<^verbatim>\<open>import time\<close>. Python's \<^verbatim>\<open>time\<close> module has no attribute \<^verbatim>\<open>utcnow\<close>
  (\<^verbatim>\<open>utcnow\<close> is a method of \<^verbatim>\<open>datetime.datetime\<close>), so under the standard library the
  expression \<^verbatim>\<open>time.utcnow()\<close> raises \<^verbatim>\<open>AttributeError\<close>.
\<close>

definition stdlib_time_utcnow :: "error + string" where
  "stdlib_time_utcnow = Inl (AttributeError ''utcnow'')"

text \<open>\<^verbatim>\<open>response.raise_for_status()\<close> raises for the statuses 400 to 599.\<close>

definition raise_for_status :: "response \<Rightarrow> error + unit" where
  "raise_for_status r =
     (if 400 \<le> status_code r \<and> status_code r < 600 then Inl (HTTPError (status_code r))
      else Inr ())"

definition response_json :: "response \<Rightarrow> error + pyval" where
  "response_json r = (case body r of None \<Rightarrow> Inl JSONDecodeError | Some v \<Rightarrow> Inr v)"

section \<open>The client and the process it runs in\<close>

text \<open>
  The attributes of \<open>ServiceRegistryClient\<close>. \<open>running\<close>, \<open>thread\<close> and \<open>stop_event\<close> are
  \<^verbatim>\<open>_running\<close>, \<^verbatim>\<open>_thread\<close> (the number of the \<^verbatim>\<open>Thread\<close> object) and the flag of
  \<^verbatim>\<open>_stop_event\<close>.
\<close>

record client =
  server_url :: string
  service_id :: pyval
  heartbeat_interval :: pyval
  token :: pyval
  running :: bool
  thread :: "nat option"
  stop_event :: bool
  capabilities :: ServiceCapabilities
  resources :: ResourceSpec
  performance :: PerformanceSpec

text \<open>The lines the module prints.\<close>

datatype line =
    HeartbeatFailed error
  | ConfigUpdateReceived pyval
  | DrainRequested

text \<open>
  The process around the client: \<open>wire\<close> lists the calls of \<^verbatim>\<open>requests.post\<close> made so far
  (URL, JSON body, timeout), \<open>stdout\<close> the lines printed, \<open>spawned\<close> counts the \<^verbatim>\<open>Thread\<close>
  objects created, and \<open>alive\<close> lists the threads that were started and have not ended: a
  thread leaves the list when its loop is left, or when a join returns with it ended.
\<close>

record process =
  self :: client
  wire :: "(string \<times> pyval \<times> nat) list"
  stdout :: "line list"
  spawned :: nat
  alive :: "nat list"

text \<open>
  The two callback attributes \<^verbatim>\<open>on_config_update\<close> and \<^verbatim>\<open>on_shutdown\<close>. A callback is any
  callable: it may change the process and may raise (\<open>Some e\<close>). Since a callback acts
  on the process, the two stand in a record of their own, passed next to the process.
\<close>

record callbacks =
  on_config_update :: "(pyval \<Rightarrow> process \<Rightarrow> error option \<times> process) option"
  on_shutdown :: "(process \<Rightarrow> error option \<times> process) option"

text \<open>The thread that executes a call: a thread of the caller, or heartbeat thread \<open>t\<close>.\<close>

datatype caller = CallerThread | LoopThread nat

text \<open>
  \<^verbatim>\<open>__init__\<close>: \<open>arg_url\<close> is the argument \<^verbatim>\<open>server_url\<close>, \<open>env_url\<close> the environment
  variable \<^verbatim>\<open>SERVICE_REGISTRY_URL\<close>.
\<close>

definition ServiceRegistryClient_init ::
  "string option \<Rightarrow> string option \<Rightarrow> ServiceCapabilities option \<Rightarrow> ResourceSpec option \<Rightarrow>
   PerformanceSpec option \<Rightarrow> client" where
  "ServiceRegistryClient_init arg_url env_url caps res perf =
     \<lparr>server_url =
        (case arg_url of
           Some u \<Rightarrow> if u \<noteq> [] then u
             else (case env_url of Some v \<Rightarrow> v
                   | None \<Rightarrow> ''http://service-registry.ai-platform.svc.cluster.local:80'')
         | None \<Rightarrow> (case env_url of Some v \<Rightarrow> v
                   | None \<Rightarrow> ''http://service-registry.ai-platform.svc.cluster.local:80'')),
      service_id = PNone,
      heartbeat_interval = PInt 30,
      token = PStr [],
      running = False,
      thread = None,
      stop_event = False,
      capabilities = (case caps of None \<Rightarrow> ServiceCapabilities_default | Some c \<Rightarrow> c),
      resources = (case res of None \<Rightarrow> ResourceSpec_default | Some r \<Rightarrow> r),
      performance = (case perf of None \<Rightarrow> PerformanceSpec_default | Some s \<Rightarrow> s)\<rparr>"

definition new_process :: "client \<Rightarrow> process" where
  "new_process c = \<lparr>self = c, wire = [], stdout = [], spawned = 0, alive = []\<rparr>"

section \<open>Building the requests\<close>

text \<open>
  \<^verbatim>\<open>RegisterRequest(service_type=..., version=..., capabilities=..., resources=...,
  performance=..., **kwargs)\<close> followed by \<^verbatim>\<open>__post_init__\<close>. The keyword arguments that
  \<^verbatim>\<open>register\<close> passes on can only name \<^verbatim>\<open>hostname\<close>, \<^verbatim>\<open>ip_address\<close> and \<^verbatim>\<open>port\<close>: any other
  key is unknown to the dataclass or given twice, and the call raises \<^verbatim>\<open>TypeError\<close>.
\<close>

definition RegisterRequest_init ::
  "env \<Rightarrow> string \<Rightarrow> string \<Rightarrow> ServiceCapabilities \<Rightarrow> ResourceSpec \<Rightarrow> PerformanceSpec \<Rightarrow>
   (string \<times> pyval) list \<Rightarrow> error + RegisterRequest" where
  "RegisterRequest_init env service_type version caps res perf kwargs =
     (if \<not> list_all (\<lambda>kv. fst kv = ''hostname'' \<or> fst kv = ''ip_address'' \<or> fst kv = ''port'') kwargs
      then Inl (TypeError ''keyword argument'')
      else
        let hostname0 = kwargs_get kwargs ''hostname'' (PStr []);
            ip0 = kwargs_get kwargs ''ip_address'' (PStr []);
            port0 = kwargs_get kwargs ''port'' (PInt 8080);
            hostname1 = (if py_eq_empty_str hostname0 then PStr (gethostname env) else hostname0);
            request = \<lparr>reg_service_type = service_type, reg_version = version,
                       reg_hostname = hostname1, reg_ip_address = ip0, reg_port = port0,
                       reg_capabilities = caps, reg_resources = res, reg_performance = perf\<rparr>
        in if py_eq_empty_str ip0
           then (case gethostbyname env hostname1 of
                   Inl e \<Rightarrow> Inl e
                 | Inr ip \<Rightarrow> Inr (request\<lparr>reg_ip_address := PStr ip\<rparr>))
           else Inr request)"

text \<open>
  \<^verbatim>\<open>HeartbeatRequest.__post_init__\<close>: an empty timestamp is replaced by
  \<^verbatim>\<open>time.utcnow().isoformat()\<close>.
\<close>

definition HeartbeatRequest_post_init :: "env \<Rightarrow> HeartbeatRequest \<Rightarrow> error + HeartbeatRequest" where
  "HeartbeatRequest_post_init env r =
     (if hb_timestamp r = []
      then (case time_utcnow env of
              Inl e \<Rightarrow> Inl e
            | Inr ts \<Rightarrow> Inr (r\<lparr>hb_timestamp := ts\<rparr>))
      else Inr r)"

text \<open>
  \<^verbatim>\<open>_get_gpu_utilization\<close>: the load of the first GPU times 100; 0.0 when there is none
  or when the import or the call raises an \<^verbatim>\<open>Exception\<close>.
\<close>

definition get_gpu_utilization :: "env \<Rightarrow> error + real" where
  "get_gpu_utilization env =
     (case getGPUs env of
        Inl e \<Rightarrow> if is_Exception e then Inr 0 else Inl e
      | Inr gpus \<Rightarrow> (case gpus of [] \<Rightarrow> Inr 0 | g # _ \<Rightarrow> Inr (g * 100)))"

text \<open>
  The sample a heartbeat sends (\<^verbatim>\<open>request = HeartbeatRequest(...)\<close> in \<^verbatim>\<open>heartbeat\<close>):
  the first CPU reading divided by 100.0, the three counters of the caller with default
  0, the second CPU reading, the GPU utilisation, the memory in use and the stored
  token; the timestamp is left empty for \<^verbatim>\<open>__post_init__\<close> to fill.
\<close>

definition heartbeat_request ::
  "env \<Rightarrow> (string \<times> pyval) list \<Rightarrow> client \<Rightarrow> error + HeartbeatRequest" where
  "heartbeat_request env kwargs c =
     (case get_gpu_utilization env of
        Inl e \<Rightarrow> Inl e
      | Inr gpu \<Rightarrow>
          HeartbeatRequest_post_init env
            \<lparr>hb_service_id = service_id c,
             hb_timestamp = [],
             hb_current_load = fst (cpu_percent env) / 100,
             hb_queue_size = kwargs_get kwargs ''queue_size'' (PInt 0),
             hb_processed_count = kwargs_get kwargs ''processed_count'' (PInt 0),
             hb_error_count = kwargs_get kwargs ''error_count'' (PInt 0),
             hb_cpu_utilization = snd (cpu_percent env),
             hb_gpu_utilization = gpu,
             hb_memory_usage = virtual_memory_used env,
             hb_token = token c\<rparr>)"

section \<open>The HTTP exchange\<close>

text \<open>
  The three statements every operation runs on the wire:
  \<^verbatim>\<open>response = requests.post(url, json=payload, timeout=t)\<close>,
  \<^verbatim>\<open>response.raise_for_status()\<close> and \<^verbatim>\<open>response.json()\<close>.
\<close>

definition post_json :: "env \<Rightarrow> string \<Rightarrow> pyval \<Rightarrow> nat \<Rightarrow> error + pyval" where
  "post_json env url payload timeout =
     (case post env url payload timeout of
        Inl e \<Rightarrow> Inl e
      | Inr response \<Rightarrow>
          (case raise_for_status response of
             Inl e \<Rightarrow> Inl e
           | Inr _ \<Rightarrow> response_json response))"

section \<open>Starting and stopping the heartbeat loop\<close>

text \<open>
  \<^verbatim>\<open>start_heartbeat_loop\<close>: nothing when \<^verbatim>\<open>_running\<close> is set; otherwise the flag is set, the
  stop event cleared, and a new daemon thread created and started. What the new thread
  executes is \<open>heartbeat_loop\<close> below.
\<close>

definition start_heartbeat_loop :: "process \<Rightarrow> process" where
  "start_heartbeat_loop p =
     (if running (self p) then p
      else p\<lparr>self := (self p)\<lparr>running := True, stop_event := False,
                               thread := Some (spawned p)\<rparr>,
             spawned := Suc (spawned p),
             alive := alive p @ [spawned p]\<rparr>)"

text \<open>
  \<^verbatim>\<open>Thread.join(timeout=5)\<close> on thread \<open>t\<close>, executed by \<open>me\<close>. Python raises
  \<^verbatim>\<open>RuntimeError\<close> when a thread joins itself. Otherwise the call returns, after the
  thread has ended (\<open>ended\<close>) or after five seconds with the thread still going.
\<close>

definition Thread_join :: "bool \<Rightarrow> caller \<Rightarrow> nat \<Rightarrow> process \<Rightarrow> error option \<times> process" where
  "Thread_join ended me t p =
     (if me = LoopThread t then (Some (RuntimeError ''cannot join current thread''), p)
      else (None, if ended then p\<lparr>alive := removeAll t (alive p)\<rparr> else p))"

text \<open>\<^verbatim>\<open>stop_heartbeat_loop\<close>, executed by thread \<open>me\<close>.\<close>

definition stop_heartbeat_loop :: "bool \<Rightarrow> caller \<Rightarrow> process \<Rightarrow> error option \<times> process" where
  "stop_heartbeat_loop ended me p =
     (if \<not> running (self p) then (None, p)
      else
        let p1 = p\<lparr>self := (self p)\<lparr>running := False, stop_event := True\<rparr>\<rparr>
        in (case thread (self p1) of
              None \<Rightarrow> (None, p1)
            | Some t \<Rightarrow> Thread_join ended me t p1))"

section \<open>Signal dispatch\<close>

definition handle_config_update :: "callbacks \<Rightarrow> pyval \<Rightarrow> process \<Rightarrow> error option \<times> process" where
  "handle_config_update cb config_update p =
     (case on_config_update cb of
        Some hook \<Rightarrow> hook config_update p
      | None \<Rightarrow> (None, p\<lparr>stdout := stdout p @ [ConfigUpdateReceived config_update]\<rparr>))"

definition handle_drain_request :: "callbacks \<Rightarrow> env \<Rightarrow> caller \<Rightarrow> process \<Rightarrow> error option \<times> process" where
  "handle_drain_request cb env me p =
     (case on_shutdown cb of
        Some hook \<Rightarrow> hook p
      | None \<Rightarrow>
          stop_heartbeat_loop (join_ended env) me (p\<lparr>stdout := stdout p @ [DrainRequested]\<rparr>))"

section \<open>register, heartbeat, shutdown\<close>

text \<open>
  Each operation returns the value the Python method returns (\<open>Inr\<close>) or the exception it
  raises (\<open>Inl\<close>), and the process as the call leaves it. A call of \<^verbatim>\<open>requests.post\<close> is
  appended to \<open>wire\<close> when it is made, whatever its outcome.
\<close>

definition register ::
  "env \<Rightarrow> string \<Rightarrow> string \<Rightarrow> (string \<times> pyval) list \<Rightarrow> process \<Rightarrow> (error + pyval) \<times> process" where
  "register env service_type version kwargs p =
     (case RegisterRequest_init env service_type version (capabilities (self p))
             (resources (self p)) (performance (self p)) kwargs of
        Inl e \<Rightarrow> (Inl e, p)
      | Inr request \<Rightarrow>
          let url = server_url (self p) @ ''/api/v1/services/register'';
              payload = asdict_RegisterRequest request;
              p0 = p\<lparr>wire := wire p @ [(url, payload, 10)]\<rparr>
          in (case post_json env url payload 10 of
                Inl e \<Rightarrow> (Inl e, p0)
              | Inr data \<Rightarrow>
                  (case py_get data ''code'' of
                     Inl e \<Rightarrow> (Inl e, p0)
                   | Inr code \<Rightarrow>
                       if py_eq_zero code
                       then
                         (case py_getitem data ''data'' of
                            Inl e \<Rightarrow> (Inl e, p0)
                          | Inr d \<Rightarrow>
                              (case py_getitem d ''service_id'' of
                                 Inl e \<Rightarrow> (Inl e, p0)
                               | Inr sid \<Rightarrow>
                                   let p1 = p0\<lparr>self := (self p0)\<lparr>service_id := sid\<rparr>\<rparr>
                                   in (case py_getitem d ''heartbeat_interval'' of
                                         Inl e \<Rightarrow> (Inl e, p1)
                                       | Inr hi \<Rightarrow>
                                           let p2 = p1\<lparr>self := (self p1)\<lparr>heartbeat_interval := hi\<rparr>\<rparr>
                                           in (case py_getitem d ''token'' of
                                                 Inl e \<Rightarrow> (Inl e, p2)
                                               | Inr tok \<Rightarrow>
                                                   (Inr d, p2\<lparr>self := (self p2)\<lparr>token := tok\<rparr>\<rparr>)))))
                       else (py_getitem data ''data'', p0))))"

text \<open>
  \<open>heartbeat_signals\<close> is the body of \<^verbatim>\<open>if data.get("code") == 0:\<close> in \<^verbatim>\<open>heartbeat\<close>, after
  \<^verbatim>\<open>heartbeat_data = data["data"]\<close>: the two signals are dispatched in turn, an exception
  of a handler ends the call, and the call returns \<^verbatim>\<open>data["data"]\<close>.
\<close>

definition heartbeat_signals ::
  "callbacks \<Rightarrow> env \<Rightarrow> caller \<Rightarrow> pyval \<Rightarrow> process \<Rightarrow> (error + pyval) \<times> process" where
  "heartbeat_signals cb env me heartbeat_data p =
     (case py_get heartbeat_data ''config_update'' of
        Inl e \<Rightarrow> (Inl e, p)
      | Inr config_update \<Rightarrow>
          (case (if truthy config_update then handle_config_update cb config_update p
                 else (None, p)) of
             (Some e, p1) \<Rightarrow> (Inl e, p1)
           | (None, p1) \<Rightarrow>
               (case py_get heartbeat_data ''drain_requested'' of
                  Inl e \<Rightarrow> (Inl e, p1)
                | Inr drain_requested \<Rightarrow>
                    (case (if truthy drain_requested then handle_drain_request cb env me p1
                           else (None, p1)) of
                       (Some e, p2) \<Rightarrow> (Inl e, p2)
                     | (None, p2) \<Rightarrow> (Inr heartbeat_data, p2)))))"

definition heartbeat ::
  "callbacks \<Rightarrow> env \<Rightarrow> caller \<Rightarrow> (string \<times> pyval) list \<Rightarrow> process \<Rightarrow> (error + pyval) \<times> process" where
  "heartbeat cb env me kwargs p =
     (if \<not> truthy (service_id (self p))
      then (Inl (RuntimeError ''Service not registered''), p)
      else
        (case heartbeat_request env kwargs (self p) of
           Inl e \<Rightarrow> (Inl e, p)
         | Inr request \<Rightarrow>
             let url = server_url (self p) @ ''/api/v1/services/heartbeat'';
                 payload = asdict_HeartbeatRequest request;
                 p0 = p\<lparr>wire := wire p @ [(url, payload, 5)]\<rparr>
             in (case post_json env url payload 5 of
                   Inl e \<Rightarrow> (Inl e, p0)
                 | Inr data \<Rightarrow>
                     (case py_get data ''code'' of
                        Inl e \<Rightarrow> (Inl e, p0)
                      | Inr code \<Rightarrow>
                          if py_eq_zero code
                          then
                            (case py_getitem data ''data'' of
                               Inl e \<Rightarrow> (Inl e, p0)
                             | Inr heartbeat_data \<Rightarrow>
                                 heartbeat_signals cb env me heartbeat_data p0)
                          else (py_getitem data ''data'', p0)))))"

definition shutdown :: "env \<Rightarrow> string \<Rightarrow> process \<Rightarrow> (error + pyval) \<times> process" where
  "shutdown env reason p =
     (if \<not> truthy (service_id (self p))
      then (Inl (RuntimeError ''Service not registered''), p)
      else
        let url = server_url (self p) @ ''/api/v1/services/shutdown'';
            request = PDict [(''service_id'', service_id (self p)), (''reason'', PStr reason)];
            p0 = p\<lparr>wire := wire p @ [(url, request, 5)]\<rparr>
        in (case post_json env url request 5 of
              Inl e \<Rightarrow> (Inl e, p0)
            | Inr data \<Rightarrow> (py_getitem data ''data'', p0)))"

section \<open>The background loop\<close>

text \<open>
  \<open>try_heartbeat\<close> is the \<^verbatim>\<open>try: self.heartbeat() except Exception as e: print(...)\<close> of
  \<^verbatim>\<open>_heartbeat_loop\<close>, executed by heartbeat thread \<open>t\<close>: \<open>None\<close> when the statement
  completes, \<open>Some e\<close> when \<open>e\<close> passes the handler.
\<close>

definition try_heartbeat :: "callbacks \<Rightarrow> env \<Rightarrow> nat \<Rightarrow> process \<Rightarrow> error option \<times> process" where
  "try_heartbeat cb env t p =
     (case heartbeat cb env (LoopThread t) [] p of
        (Inr _, p1) \<Rightarrow> (None, p1)
      | (Inl e, p1) \<Rightarrow>
          if is_Exception e then (None, p1\<lparr>stdout := stdout p1 @ [HeartbeatFailed e]\<rparr>)
          else (Some e, p1))"

text \<open>
  \<^verbatim>\<open>_heartbeat_loop\<close> as thread \<open>t\<close> runs it. The loop has no bound of its own, so the run
  is driven by a list of environments, one for each iteration: the answers the libraries
  give during it. The result tells how the run stands when the list is used up:
  \<open>Exited\<close> when the loop test found \<^verbatim>\<open>_running\<close> false and the thread ended, \<open>Raised e\<close>
  when \<open>e\<close> left the loop and ended the thread, \<open>Pending\<close> when the loop is still going.
\<close>

datatype loop_exit = Exited | Raised error | Pending

definition thread_end :: "nat \<Rightarrow> process \<Rightarrow> process" where
  "thread_end t p = p\<lparr>alive := removeAll t (alive p)\<rparr>"

fun heartbeat_loop :: "callbacks \<Rightarrow> nat \<Rightarrow> env list \<Rightarrow> process \<Rightarrow> loop_exit \<times> process" where
  "heartbeat_loop cb t [] p =
     (if running (self p) then (Pending, p) else (Exited, thread_end t p))"
| "heartbeat_loop cb t (env # envs) p =
     (if \<not> running (self p) then (Exited, thread_end t p)
      else
        (case try_heartbeat cb env t p of
           (Some e, p1) \<Rightarrow> (Raised e, thread_end t p1)
         | (None, p1) \<Rightarrow>
             (case event_wait env (stop_event (self p1)) (heartbeat_interval (self p1)) of
                Inl e \<Rightarrow> (Raised e, thread_end t p1)
              | Inr _ \<Rightarrow> heartbeat_loop cb t envs p1)))"

text \<open>
  A sequence of calls of \<^verbatim>\<open>start_heartbeat_loop\<close> and \<^verbatim>\<open>stop_heartbeat_loop\<close> made by the
  caller one after the other. \<open>Stop ended\<close> carries the outcome of the bounded join.
\<close>

datatype call = Start | Stop bool

fun apply_call :: "process \<Rightarrow> call \<Rightarrow> process" where
  "apply_call p Start = start_heartbeat_loop p"
| "apply_call p (Stop ended) = snd (stop_heartbeat_loop ended CallerThread p)"

definition run_calls :: "call list \<Rightarrow> process \<Rightarrow> process" where
  "run_calls cs p = foldl apply_call p cs"

fun joined :: "call \<Rightarrow> bool" where
  "joined Start = True"
| "joined (Stop ended) = ended"

text \<open>
  Three ways one attempt of the loop can go, read off the answers of the environment
  for a client \<open>c\<close>.
  \<^item> \<open>attempt_fails\<close>: \<^verbatim>\<open>heartbeat\<close> raises an \<^verbatim>\<open>Exception\<close> while the sample is built, on
    the network (\<^verbatim>\<open>requests.post\<close>), from the server's HTTP status (\<^verbatim>\<open>raise_for_status\<close>),
    or while the body is parsed and its \<^verbatim>\<open>code\<close> and \<^verbatim>\<open>data\<close> are read.
  \<^item> \<open>attempt_succeeds\<close>: the registry answers with code 0 and a data object that carries
    neither a config update nor a drain request.
  \<^item> \<open>wait_returns\<close>: the wait on the stop event at the end of the iteration returns.
\<close>

definition attempt_fails :: "env \<Rightarrow> client \<Rightarrow> bool" where
  "attempt_fails env c =
     (case heartbeat_request env [] c of
        Inl e \<Rightarrow> is_Exception e
      | Inr request \<Rightarrow>
          (case post_json env (server_url c @ ''/api/v1/services/heartbeat'')
                  (asdict_HeartbeatRequest request) 5 of
             Inl e \<Rightarrow> is_Exception e
           | Inr data \<Rightarrow>
               (case py_get data ''code'' of
                  Inl e \<Rightarrow> True
                | Inr code \<Rightarrow>
                    (case py_getitem data ''data'' of Inl e \<Rightarrow> True | Inr d \<Rightarrow> False))))"

definition attempt_succeeds :: "env \<Rightarrow> client \<Rightarrow> bool" where
  "attempt_succeeds env c =
     (case heartbeat_request env [] c of
        Inl e \<Rightarrow> False
      | Inr request \<Rightarrow>
          (case post_json env (server_url c @ ''/api/v1/services/heartbeat'')
                  (asdict_HeartbeatRequest request) 5 of
             Inl e \<Rightarrow> False
           | Inr data \<Rightarrow>
               (case py_get data ''code'' of
                  Inl e \<Rightarrow> False
                | Inr code \<Rightarrow>
                    py_eq_zero code \<and>
                    (case py_getitem data ''data'' of
                       Inl e \<Rightarrow> False
                     | Inr d \<Rightarrow>
                         (case py_get d ''config_update'' of
                            Inl e \<Rightarrow> False
                          | Inr config_update \<Rightarrow>
                              \<not> truthy config_update \<and>
                              (case py_get d ''drain_requested'' of
                                 Inl e \<Rightarrow> False
                               | Inr drain_requested \<Rightarrow> \<not> truthy drain_requested))))))"

definition wait_returns :: "env \<Rightarrow> client \<Rightarrow> bool" where
  "wait_returns env c =
     (case event_wait env (stop_event c) (heartbeat_interval c) of
        Inl e \<Rightarrow> False
      | Inr woken \<Rightarrow> True)"

section \<open>Concrete clients, environments and answers\<close>

definition example_client :: client where
  "example_client = ServiceRegistryClient_init None None None None None"

definition no_callbacks :: callbacks where
  "no_callbacks = \<lparr>on_config_update = None, on_shutdown = None\<rparr>"

text \<open>
  An environment whose registry gives the same \<open>answer\<close> to every request and whose
  \<^verbatim>\<open>time.utcnow().isoformat()\<close> evaluates to \<open>clock\<close>; no GPU library is installed.
\<close>

definition example_env :: "error + response \<Rightarrow> error + string \<Rightarrow> env" where
  "example_env answer clock =
     \<lparr>post = (\<lambda>url payload timeout. answer),
      time_utcnow = clock,
      cpu_percent = (25, 30),
      virtual_memory_used = 1024,
      getGPUs = Inl (ImportError ''GPUtil''),
      gethostname = ''worker-1'',
      gethostbyname = (\<lambda>h. Inr ''10.0.0.7''),
      event_wait = (\<lambda>flag timeout. Inr flag),
      join_ended = True\<rparr>"

definition ok_response :: "pyval \<Rightarrow> error + response" where
  "ok_response v = Inr \<lparr>status_code = 200, body = Some v\<rparr>"

text \<open>The answer of the spec's end-to-end scenario, and a rejection by the registry.\<close>

definition accepted :: pyval where
  "accepted = PDict [(''code'', PInt 0),
     (''data'', PDict [(''service_id'', PStr ''svc-1''), (''token'', PStr ''tok-1''),
                      (''heartbeat_interval'', PInt 5)])]"

definition rejected :: pyval where
  "rejected = PDict [(''code'', PInt 1001), (''message'', PStr ''rejected''), (''data'', PNone)]"

text \<open>The process after a first, accepted registration.\<close>

definition registered :: process where
  "registered =
     snd (register (example_env (ok_response accepted) stdlib_time_utcnow)
            ''text_to_image'' ''1.0.0'' [] (new_process example_client))"

text \<open>A transport failure, a server error and a quiet heartbeat answer.\<close>

definition unreachable :: "error + response" where
  "unreachable = Inl (RequestException ''connection refused'')"

definition server_error :: "error + response" where
  "server_error = Inr \<lparr>status_code = 503, body = None\<rparr>"

definition quiet :: pyval where
  "quiet = PDict [(''code'', PInt 0), (''data'', PDict [(''status'', PStr ''ok'')])]"

definition drain :: pyval where
  "drain = PDict [(''code'', PInt 0), (''data'', PDict [(''drain_requested'', PBool True)])]"

definition no_data :: pyval where
  "no_data = PDict [(''code'', PInt 0), (''message'', PStr ''ok'')]"

text \<open>
  A value for \<^verbatim>\<open>time.utcnow().isoformat()\<close>, for an interpreter in which the call
  returns; the request and the sample the concrete client then sends; and the concrete
  client with its loop started.
\<close>

definition some_timestamp :: "error + string" where
  "some_timestamp = Inr ''2026-01-01T00:00:00''"

definition example_request :: RegisterRequest where
  "example_request =
     \<lparr>reg_service_type = ''text_to_image'', reg_version = ''1.0.0'',
      reg_hostname = PStr ''worker-1'', reg_ip_address = PStr ''10.0.0.7'',
      reg_port = PInt 8080, reg_capabilities = ServiceCapabilities_default,
      reg_resources = ResourceSpec_default, reg_performance = PerformanceSpec_default\<rparr>"

definition example_sample :: HeartbeatRequest where
  "example_sample =
     \<lparr>hb_service_id = PStr ''svc-1'', hb_timestamp = ''2026-01-01T00:00:00'',
      hb_current_load = 1 / 4, hb_queue_size = PInt 0, hb_processed_count = PInt 0,
      hb_error_count = PInt 0, hb_cpu_utilization = 30, hb_gpu_utilization = 0,
      hb_memory_usage = 1024, hb_token = PStr ''tok-1''\<rparr>"

definition looping :: process where
  "looping = start_heartbeat_loop registered"

text \<open>
  The state the caller's own starts and stops keep while every join sees its thread
  end: the threads alive are the current thread when \<^verbatim>\<open>_running\<close> is set, and none
  otherwise.
\<close>

definition loop_inv :: "process \<Rightarrow> bool" where
  "loop_inv p =
     (alive p =
        (if running (self p) then (case thread (self p) of Some t \<Rightarrow> [t] | None \<Rightarrow> [])
         else []))"

section \<open>Facts about the concrete values\<close>

lemma registered_self:
  "self registered =
     example_client\<lparr>service_id := PStr ''svc-1'', heartbeat_interval := PInt 5,
                    token := PStr ''tok-1''\<rparr>"
  by (simp add: registered_def register_def RegisterRequest_init_def kwargs_get_def
      example_env_def ok_response_def accepted_def post_json_def raise_for_status_def
      response_json_def new_process_def)

lemma registered_truthy: "truthy (service_id (self registered))"
  by (simp add: registered_self)

lemma looping_self:
  "self looping =
     example_client\<lparr>service_id := PStr ''svc-1'', heartbeat_interval := PInt 5,
                    token := PStr ''tok-1'', running := True, stop_event := False,
                    thread := Some 0\<rparr>"
  by (simp add: looping_def start_heartbeat_loop_def registered_self example_client_def
      ServiceRegistryClient_init_def registered_def register_def RegisterRequest_init_def
      kwargs_get_def example_env_def ok_response_def accepted_def post_json_def
      raise_for_status_def response_json_def new_process_def)

lemma example_post: "post (example_env answer clock) url payload timeout = answer"
  by (simp add: example_env_def)

lemma example_request_built:
  "RegisterRequest_init (example_env answer clock) ''text_to_image'' ''1.0.0''
     (capabilities (self registered)) (resources (self registered))
     (performance (self registered)) [] = Inr example_request"
  by (simp add: RegisterRequest_init_def kwargs_get_def example_env_def example_request_def
      registered_self example_client_def ServiceRegistryClient_init_def)

lemma example_sample_built:
  "heartbeat_request (example_env answer some_timestamp) [] (self registered)
     = Inr example_sample"
  by (simp add: heartbeat_request_def HeartbeatRequest_post_init_def get_gpu_utilization_def
      kwargs_get_def example_env_def some_timestamp_def example_sample_def registered_self)

lemma example_attempts:
  "attempt_fails (example_env unreachable stdlib_time_utcnow) (self looping)"
  "attempt_fails (example_env unreachable some_timestamp) (self looping)"
  "attempt_fails (example_env server_error some_timestamp) (self looping)"
  "attempt_succeeds (example_env (ok_response quiet) some_timestamp) (self looping)"
  "wait_returns (example_env answer clock) (self looping)"
  by (simp_all add: looping_self attempt_fails_def attempt_succeeds_def wait_returns_def
      heartbeat_request_def HeartbeatRequest_post_init_def get_gpu_utilization_def
      example_env_def stdlib_time_utcnow_def some_timestamp_def unreachable_def
      server_error_def ok_response_def quiet_def post_json_def raise_for_status_def
      response_json_def)

section \<open>Exceptions of the dictionary operations\<close>

lemma py_get_Exception: "py_get v k = Inl e \<Longrightarrow> is_Exception e"
  by (cases v) auto

lemma py_getitem_Exception: "py_getitem v k = Inl e \<Longrightarrow> is_Exception e"
  by (cases v) (auto split: option.splits)

lemma post_json_2xx:
  assumes "post env url payload timeout = Inr response"
    and "200 \<le> status_code response" and "status_code response < 300"
    and "body response = Some v"
  shows "post_json env url payload timeout = Inr v"
  using assms by (simp add: post_json_def raise_for_status_def response_json_def)

section \<open>The precondition of heartbeat and shutdown\<close>

lemma init_unregistered:
  "service_id (ServiceRegistryClient_init arg_url env_url caps res perf) = PNone"
  by (simp add: ServiceRegistryClient_init_def)

text \<open>
  Claim C1. A client whose identity is absent (\<^verbatim>\<open>service_id\<close> is \<^verbatim>\<open>None\<close>, as \<^verbatim>\<open>__init__\<close>
  leaves it) raises \<^verbatim>\<open>RuntimeError("Service not registered")\<close> from \<^verbatim>\<open>heartbeat\<close> and from
  \<^verbatim>\<open>shutdown\<close>, and the process is as before the call: nothing was added to the wire,
  so no request was issued.
\<close>

theorem unregistered_call_raises_before_network:
  assumes "service_id (self p) = PNone"
  shows "heartbeat cb env me kwargs p = (Inl (RuntimeError ''Service not registered''), p)
       \<and> shutdown env reason p = (Inl (RuntimeError ''Service not registered''), p)"
  using assms by (simp add: heartbeat_def shutdown_def)

theorem unregistered_call_raises_before_network_witness:
  "service_id (self (new_process example_client)) = PNone
   \<and> heartbeat no_callbacks (example_env (ok_response accepted) stdlib_time_utcnow)
        CallerThread [] (new_process example_client)
      = (Inl (RuntimeError ''Service not registered''), new_process example_client)
   \<and> shutdown (example_env (ok_response accepted) stdlib_time_utcnow) ''bye''
        (new_process example_client)
      = (Inl (RuntimeError ''Service not registered''), new_process example_client)"
  using unregistered_call_raises_before_network
    [of "new_process example_client" no_callbacks
        "example_env (ok_response accepted) stdlib_time_utcnow" CallerThread "[]" "''bye''"]
  by (simp add: new_process_def example_client_def ServiceRegistryClient_init_def)

section \<open>Registration\<close>

text \<open>
  Claim C2. When the registry answers a \<^verbatim>\<open>register\<close> call with a 2xx response whose body
  has code 0 and a data object with the three fields, the call returns that data object
  and the client's \<^verbatim>\<open>service_id\<close>, \<^verbatim>\<open>heartbeat_interval\<close> and \<^verbatim>\<open>token\<close> are afterwards the
  values of these fields.
\<close>

theorem register_success_stores_identity:
  assumes "RegisterRequest_init env service_type version (capabilities (self p))
             (resources (self p)) (performance (self p)) kwargs = Inr request"
    and "post env (server_url (self p) @ ''/api/v1/services/register'')
           (asdict_RegisterRequest request) 10 = Inr response"
    and "200 \<le> status_code response" and "status_code response < 300"
    and "body response = Some (PDict kvs)"
    and "map_of kvs ''code'' = Some (PInt 0)"
    and "map_of kvs ''data'' = Some (PDict d)"
    and "map_of d ''service_id'' = Some sid"
    and "map_of d ''heartbeat_interval'' = Some hi"
    and "map_of d ''token'' = Some tok"
  shows "fst (register env service_type version kwargs p) = Inr (PDict d)
       \<and> service_id (self (snd (register env service_type version kwargs p))) = sid
       \<and> heartbeat_interval (self (snd (register env service_type version kwargs p))) = hi
       \<and> token (self (snd (register env service_type version kwargs p))) = tok"
  using assms post_json_2xx [OF assms(2-5)] by (simp add: register_def Let_def)

theorem register_success_stores_identity_witness:
  "RegisterRequest_init (example_env (ok_response accepted) stdlib_time_utcnow)
      ''text_to_image'' ''1.0.0'' (capabilities (self (new_process example_client)))
      (resources (self (new_process example_client)))
      (performance (self (new_process example_client))) [] = Inr example_request
   \<and> fst (register (example_env (ok_response accepted) stdlib_time_utcnow)
            ''text_to_image'' ''1.0.0'' [] (new_process example_client))
       = Inr (PDict [(''service_id'', PStr ''svc-1''), (''token'', PStr ''tok-1''),
                     (''heartbeat_interval'', PInt 5)])
   \<and> service_id (self registered) = PStr ''svc-1''
   \<and> heartbeat_interval (self registered) = PInt 5
   \<and> token (self registered) = PStr ''tok-1''"
  using register_success_stores_identity
    [of "example_env (ok_response accepted) stdlib_time_utcnow" "''text_to_image''" "''1.0.0''"
        "new_process example_client" "[]" example_request
        "\<lparr>status_code = 200, body = Some accepted\<rparr>"
        "[(''code'', PInt 0),
          (''data'', PDict [(''service_id'', PStr ''svc-1''), (''token'', PStr ''tok-1''),
                           (''heartbeat_interval'', PInt 5)])]"
        "[(''service_id'', PStr ''svc-1''), (''token'', PStr ''tok-1''),
          (''heartbeat_interval'', PInt 5)]"
        "PStr ''svc-1''" "PInt 5" "PStr ''tok-1''"]
  by (simp add: registered_def RegisterRequest_init_def kwargs_get_def example_env_def
      ok_response_def accepted_def new_process_def example_client_def example_request_def
      ServiceRegistryClient_init_def)

text \<open>
  Claim C5, as stated, fails. After an accepted registration the identity is
  \<open>svc-1\<close>, \<open>tok-1\<close>, 5. A second \<^verbatim>\<open>register\<close> that the registry answers with code 1001
  returns normally and the identity is still \<open>svc-1\<close>, \<open>tok-1\<close>, 5: it is not unset.
\<close>

theorem rejected_register_keeps_identity_counterexample:
  "service_id (self registered) = PStr ''svc-1''
   \<and> fst (register (example_env (ok_response rejected) stdlib_time_utcnow)
            ''text_to_image'' ''1.0.0'' [] registered) = Inr PNone
   \<and> service_id (self (snd (register (example_env (ok_response rejected) stdlib_time_utcnow)
            ''text_to_image'' ''1.0.0'' [] registered))) = PStr ''svc-1''
   \<and> token (self (snd (register (example_env (ok_response rejected) stdlib_time_utcnow)
            ''text_to_image'' ''1.0.0'' [] registered))) = PStr ''tok-1''
   \<and> heartbeat_interval (self (snd (register (example_env (ok_response rejected)
            stdlib_time_utcnow) ''text_to_image'' ''1.0.0'' [] registered))) = PInt 5"
  by (simp add: register_def RegisterRequest_init_def kwargs_get_def example_env_def
      ok_response_def rejected_def post_json_def raise_for_status_def response_json_def
      example_client_def ServiceRegistryClient_init_def registered_self)

text \<open>
  Claim C5, amended. When the body of the response to \<^verbatim>\<open>register\<close> carries a code that
  is not 0, the call leaves every attribute of the client as it was before the call:
  the identity is unset afterwards exactly when it was unset before.
\<close>

theorem rejected_register_leaves_client_unchanged:
  assumes "RegisterRequest_init env service_type version (capabilities (self p))
             (resources (self p)) (performance (self p)) kwargs = Inr request"
    and "post env (server_url (self p) @ ''/api/v1/services/register'')
           (asdict_RegisterRequest request) 10 = Inr response"
    and "body response = Some data"
    and "py_get data ''code'' = Inr code"
    and "\<not> py_eq_zero code"
  shows "self (snd (register env service_type version kwargs p)) = self p"
  using assms
  by (simp add: register_def post_json_def response_json_def Let_def split: sum.splits)

theorem rejected_register_leaves_client_unchanged_witness:
  "RegisterRequest_init (example_env (ok_response rejected) stdlib_time_utcnow)
      ''text_to_image'' ''1.0.0'' (capabilities (self registered))
      (resources (self registered)) (performance (self registered)) [] = Inr example_request
   \<and> py_get rejected ''code'' = Inr (PInt 1001)
   \<and> \<not> py_eq_zero (PInt 1001)
   \<and> self (snd (register (example_env (ok_response rejected) stdlib_time_utcnow)
            ''text_to_image'' ''1.0.0'' [] registered)) = self registered"
  using rejected_register_leaves_client_unchanged
    [of "example_env (ok_response rejected) stdlib_time_utcnow" "''text_to_image''" "''1.0.0''"
        registered "[]" example_request "\<lparr>status_code = 200, body = Some rejected\<rparr>"
        rejected "PInt 1001"]
  by (simp add: example_request_built example_post ok_response_def rejected_def)

section \<open>The heartbeat sample\<close>

text \<open>
  When the timestamp can be built, the sample holds the first CPU reading divided by
  100, the second CPU reading, the memory in use, the GPU utilisation, the caller's
  counters with default 0 and the stored token.
\<close>

lemma heartbeat_request_fields:
  assumes "get_gpu_utilization env = Inr gpu" and "time_utcnow env = Inr ts"
  shows "heartbeat_request env kwargs c =
     Inr \<lparr>hb_service_id = service_id c, hb_timestamp = ts,
          hb_current_load = fst (cpu_percent env) / 100,
          hb_queue_size = kwargs_get kwargs ''queue_size'' (PInt 0),
          hb_processed_count = kwargs_get kwargs ''processed_count'' (PInt 0),
          hb_error_count = kwargs_get kwargs ''error_count'' (PInt 0),
          hb_cpu_utilization = snd (cpu_percent env), hb_gpu_utilization = gpu,
          hb_memory_usage = virtual_memory_used env, hb_token = token c\<rparr>"
  using assms
  by (simp add: heartbeat_request_def HeartbeatRequest_post_init_def)

text \<open>
  Claim C3. The claim says that building the sample succeeds and that nothing is raised
  before the network call. The code builds the timestamp with \<^verbatim>\<open>time.utcnow()\<close>, which
  the \<^verbatim>\<open>time\<close> module does not have: for a registered client and any metric values, the
  sample is never built, \<^verbatim>\<open>heartbeat\<close> raises \<^verbatim>\<open>AttributeError\<close>, and the process is as
  before the call, so no request reaches the heartbeat endpoint.
\<close>

theorem heartbeat_sample_raises_attribute_error:
  assumes "truthy (service_id (self p))"
    and "get_gpu_utilization env = Inr gpu"
    and "time_utcnow env = stdlib_time_utcnow"
  shows "heartbeat_request env kwargs (self p) = Inl (AttributeError ''utcnow'')
       \<and> heartbeat cb env me kwargs p = (Inl (AttributeError ''utcnow''), p)"
  using assms
  by (simp add: heartbeat_def heartbeat_request_def HeartbeatRequest_post_init_def
      stdlib_time_utcnow_def)

theorem heartbeat_sample_raises_attribute_error_witness:
  "truthy (service_id (self registered))
   \<and> get_gpu_utilization (example_env (ok_response quiet) stdlib_time_utcnow) = Inr 0
   \<and> time_utcnow (example_env (ok_response quiet) stdlib_time_utcnow) = stdlib_time_utcnow
   \<and> heartbeat_request (example_env (ok_response quiet) stdlib_time_utcnow) []
        (self registered) = Inl (AttributeError ''utcnow'')
   \<and> heartbeat no_callbacks (example_env (ok_response quiet) stdlib_time_utcnow)
        CallerThread [] registered
       = (Inl (AttributeError ''utcnow''), registered)"
  using heartbeat_sample_raises_attribute_error
    [of registered "example_env (ok_response quiet) stdlib_time_utcnow" 0 "[]"
        no_callbacks CallerThread]
  by (simp add: registered_self get_gpu_utilization_def example_env_def)

section \<open>Answers with a non-zero code\<close>

text \<open>
  Claim C4, as stated, fails. The registry answers 200 with
  \<^verbatim>\<open>{"code": 1001, "message": "rejected", "data": null}\<close>. \<^verbatim>\<open>register\<close> and \<^verbatim>\<open>shutdown\<close>
  return \<^verbatim>\<open>None\<close> to the caller; on a transport failure the same calls raise. The
  rejection is not surfaced the way a transport error is.
\<close>

theorem rejection_returns_normally_counterexample:
  "fst (register (example_env (ok_response rejected) stdlib_time_utcnow)
          ''text_to_image'' ''1.0.0'' [] (new_process example_client)) = Inr PNone
   \<and> fst (register (example_env unreachable stdlib_time_utcnow)
          ''text_to_image'' ''1.0.0'' [] (new_process example_client))
       = Inl (RequestException ''connection refused'')
   \<and> fst (shutdown (example_env (ok_response rejected) stdlib_time_utcnow) ''stopping''
          registered) = Inr PNone
   \<and> fst (shutdown (example_env unreachable stdlib_time_utcnow) ''stopping'' registered)
       = Inl (RequestException ''connection refused'')"
  by (simp add: register_def shutdown_def RegisterRequest_init_def kwargs_get_def
      example_env_def ok_response_def rejected_def unreachable_def post_json_def
      raise_for_status_def response_json_def new_process_def example_client_def
      ServiceRegistryClient_init_def registered_self)

text \<open>
  Claim C4, amended. On a 2xx response whose body is an object with a code that is not
  0 and with a \<^verbatim>\<open>data\<close> field, no call site raises: \<^verbatim>\<open>register\<close>, \<^verbatim>\<open>shutdown\<close> and
  \<^verbatim>\<open>heartbeat\<close> (once its request has been sent) return the value of \<^verbatim>\<open>data\<close>, and the
  process differs from the one before the call only by the request on the wire.
\<close>

theorem rejection_returns_data:
  assumes "200 \<le> status_code response" and "status_code response < 300"
    and "body response = Some (PDict kvs)"
    and "map_of kvs ''code'' = Some code" and "\<not> py_eq_zero code"
    and "map_of kvs ''data'' = Some v"
  shows "(RegisterRequest_init env service_type version (capabilities (self p))
             (resources (self p)) (performance (self p)) kwargs = Inr request \<longrightarrow>
          post env (server_url (self p) @ ''/api/v1/services/register'')
             (asdict_RegisterRequest request) 10 = Inr response \<longrightarrow>
          register env service_type version kwargs p =
            (Inr v,
             p\<lparr>wire := wire p @ [(server_url (self p) @ ''/api/v1/services/register'',
                                  asdict_RegisterRequest request, 10)]\<rparr>))
       \<and> (truthy (service_id (self p)) \<longrightarrow>
          post env (server_url (self p) @ ''/api/v1/services/shutdown'')
             (PDict [(''service_id'', service_id (self p)), (''reason'', PStr reason)]) 5
            = Inr response \<longrightarrow>
          shutdown env reason p =
            (Inr v,
             p\<lparr>wire := wire p @ [(server_url (self p) @ ''/api/v1/services/shutdown'',
                  PDict [(''service_id'', service_id (self p)), (''reason'', PStr reason)],
                  5)]\<rparr>))
       \<and> (truthy (service_id (self p)) \<longrightarrow>
          heartbeat_request env hb_kwargs (self p) = Inr sample \<longrightarrow>
          post env (server_url (self p) @ ''/api/v1/services/heartbeat'')
             (asdict_HeartbeatRequest sample) 5 = Inr response \<longrightarrow>
          heartbeat cb env me hb_kwargs p =
            (Inr v,
             p\<lparr>wire := wire p @ [(server_url (self p) @ ''/api/v1/services/heartbeat'',
                                  asdict_HeartbeatRequest sample, 5)]\<rparr>))"
  using assms
  by (simp add: register_def shutdown_def heartbeat_def post_json_def raise_for_status_def
      response_json_def Let_def)

theorem rejection_returns_data_witness:
  "RegisterRequest_init (example_env (ok_response rejected) some_timestamp) ''text_to_image''
      ''1.0.0'' (capabilities (self registered)) (resources (self registered))
      (performance (self registered)) [] = Inr example_request
   \<and> truthy (service_id (self registered))
   \<and> heartbeat_request (example_env (ok_response rejected) some_timestamp) []
        (self registered) = Inr example_sample
   \<and> fst (register (example_env (ok_response rejected) some_timestamp) ''text_to_image''
        ''1.0.0'' [] registered) = Inr PNone
   \<and> fst (shutdown (example_env (ok_response rejected) some_timestamp) ''stopping''
        registered) = Inr PNone
   \<and> fst (heartbeat no_callbacks (example_env (ok_response rejected) some_timestamp)
        CallerThread [] registered) = Inr PNone"
  using rejection_returns_data
    [where response = "\<lparr>status_code = 200, body = Some rejected\<rparr>"
      and kvs = "[(''code'', PInt 1001), (''message'', PStr ''rejected''), (''data'', PNone)]"
      and code = "PInt 1001" and v = PNone
      and env = "example_env (ok_response rejected) some_timestamp"
      and service_type = "''text_to_image''" and version = "''1.0.0''" and kwargs = "[]"
      and p = registered and request = example_request and reason = "''stopping''"
      and hb_kwargs = "[]" and sample = example_sample and cb = no_callbacks
      and me = CallerThread]
  by (simp add: example_request_built example_sample_built example_post registered_truthy
      ok_response_def rejected_def)

section \<open>Answers without a data field\<close>

text \<open>
  Claim C10. On a 2xx response whose body is a JSON object without the field \<^verbatim>\<open>data\<close>,
  whatever its code, \<^verbatim>\<open>register\<close>, \<^verbatim>\<open>shutdown\<close> and \<^verbatim>\<open>heartbeat\<close> (once its request has
  been sent) raise \<^verbatim>\<open>KeyError('data')\<close>: each of them reads \<^verbatim>\<open>data\<close> from the body on every
  path.
\<close>

theorem missing_data_raises_key_error:
  assumes "200 \<le> status_code response" and "status_code response < 300"
    and "body response = Some (PDict kvs)"
    and "map_of kvs ''data'' = None"
  shows "(RegisterRequest_init env service_type version (capabilities (self p))
             (resources (self p)) (performance (self p)) kwargs = Inr request \<longrightarrow>
          post env (server_url (self p) @ ''/api/v1/services/register'')
             (asdict_RegisterRequest request) 10 = Inr response \<longrightarrow>
          fst (register env service_type version kwargs p) = Inl (KeyError ''data''))
       \<and> (truthy (service_id (self p)) \<longrightarrow>
          post env (server_url (self p) @ ''/api/v1/services/shutdown'')
             (PDict [(''service_id'', service_id (self p)), (''reason'', PStr reason)]) 5
            = Inr response \<longrightarrow>
          fst (shutdown env reason p) = Inl (KeyError ''data''))
       \<and> (truthy (service_id (self p)) \<longrightarrow>
          heartbeat_request env hb_kwargs (self p) = Inr sample \<longrightarrow>
          post env (server_url (self p) @ ''/api/v1/services/heartbeat'')
             (asdict_HeartbeatRequest sample) 5 = Inr response \<longrightarrow>
          fst (heartbeat cb env me hb_kwargs p) = Inl (KeyError ''data''))"
  using assms
  by (simp add: register_def shutdown_def heartbeat_def post_json_def raise_for_status_def
      response_json_def Let_def)

theorem missing_data_raises_key_error_witness:
  "RegisterRequest_init (example_env (ok_response no_data) some_timestamp) ''text_to_image''
      ''1.0.0'' (capabilities (self registered)) (resources (self registered))
      (performance (self registered)) [] = Inr example_request
   \<and> truthy (service_id (self registered))
   \<and> heartbeat_request (example_env (ok_response no_data) some_timestamp) []
        (self registered) = Inr example_sample
   \<and> fst (register (example_env (ok_response no_data) some_timestamp) ''text_to_image''
        ''1.0.0'' [] registered) = Inl (KeyError ''data'')
   \<and> fst (shutdown (example_env (ok_response no_data) some_timestamp) ''stopping''
        registered) = Inl (KeyError ''data'')
   \<and> fst (heartbeat no_callbacks (example_env (ok_response no_data) some_timestamp)
        CallerThread [] registered) = Inl (KeyError ''data'')"
  using missing_data_raises_key_error
    [where response = "\<lparr>status_code = 200, body = Some no_data\<rparr>"
      and kvs = "[(''code'', PInt 0), (''message'', PStr ''ok'')]"
      and env = "example_env (ok_response no_data) some_timestamp"
      and service_type = "''text_to_image''" and version = "''1.0.0''" and kwargs = "[]"
      and p = registered and request = example_request and reason = "''stopping''"
      and hb_kwargs = "[]" and sample = example_sample and cb = no_callbacks
      and me = CallerThread]
  by (simp add: example_request_built example_sample_built example_post registered_truthy
      ok_response_def no_data_def)

section \<open>Shutdown\<close>

text \<open>
  Claim C9. Whatever \<^verbatim>\<open>shutdown\<close> returns or raises, the client is as before the call (so
  are \<^verbatim>\<open>_running\<close>, \<^verbatim>\<open>_stop_event\<close> and \<^verbatim>\<open>_thread\<close>), no thread was started or ended, and
  nothing was printed: only the wire may have grown.
\<close>

theorem shutdown_leaves_loop_alone:
  "self (snd (shutdown env reason p)) = self p
   \<and> alive (snd (shutdown env reason p)) = alive p
   \<and> spawned (snd (shutdown env reason p)) = spawned p
   \<and> stdout (snd (shutdown env reason p)) = stdout p"
  by (simp add: shutdown_def Let_def split: sum.splits)

section \<open>Starting and stopping: how many threads are alive\<close>

lemma loop_inv_start: "loop_inv p \<Longrightarrow> loop_inv (start_heartbeat_loop p)"
  by (simp add: loop_inv_def start_heartbeat_loop_def)

lemma loop_inv_stop:
  "loop_inv p \<Longrightarrow> loop_inv (snd (stop_heartbeat_loop True CallerThread p))"
  by (cases "thread (self p)")
     (simp_all add: loop_inv_def stop_heartbeat_loop_def Thread_join_def Let_def)

lemma loop_inv_call: "loop_inv p \<Longrightarrow> joined c \<Longrightarrow> loop_inv (apply_call p c)"
  by (cases c) (simp_all add: loop_inv_start loop_inv_stop)

lemma loop_inv_calls: "loop_inv p \<Longrightarrow> list_all joined cs \<Longrightarrow> loop_inv (run_calls cs p)"
  unfolding run_calls_def
  by (induction cs arbitrary: p) (simp_all add: loop_inv_call)

lemma loop_inv_bound: "loop_inv p \<Longrightarrow> length (alive p) \<le> 1"
  by (simp add: loop_inv_def split: option.splits if_splits)

lemma list_all_take: "list_all P xs \<Longrightarrow> list_all P (take n xs)"
  by (induction xs arbitrary: n) (auto simp: take_Cons split: nat.splits)

lemma fresh_process:
  "\<not> running (self (new_process example_client))"
  "alive (new_process example_client) = []"
  "spawned (new_process example_client) = 0"
  by (simp_all add: new_process_def example_client_def ServiceRegistryClient_init_def)

lemma registered_threads: "alive registered = []" "spawned registered = 0"
  by (simp_all add: registered_def register_def RegisterRequest_init_def kwargs_get_def
      example_env_def ok_response_def accepted_def post_json_def raise_for_status_def
      response_json_def new_process_def)

text \<open>
  Claim C6, as stated, fails. The registered client calls start, stop, start, and the
  join of the stop runs into its five seconds while thread 0 is still busy. The second
  start finds \<^verbatim>\<open>_running\<close> false and starts thread 1: threads 0 and 1 are both alive.
  Thread 0 does not end later either: \<^verbatim>\<open>_running\<close> is true again, so its next loop test
  succeeds and it goes on sending heartbeats next to thread 1.
\<close>

theorem two_threads_after_timed_out_join_counterexample:
  "alive (run_calls [Start, Stop False, Start] registered) = [0, 1]
   \<and> fst (heartbeat_loop no_callbacks 0 [example_env unreachable stdlib_time_utcnow]
        (run_calls [Start, Stop False, Start] registered)) = Pending
   \<and> fst (heartbeat_loop no_callbacks 1 [example_env unreachable stdlib_time_utcnow]
        (run_calls [Start, Stop False, Start] registered)) = Pending"
  by (simp add: run_calls_def start_heartbeat_loop_def stop_heartbeat_loop_def
      Thread_join_def Let_def registered_self registered_threads example_client_def
      ServiceRegistryClient_init_def try_heartbeat_def heartbeat_def heartbeat_request_def
      HeartbeatRequest_post_init_def get_gpu_utilization_def example_env_def
      stdlib_time_utcnow_def)

text \<open>
  Claim C6, amended. Take a client whose loop is not running and has no thread alive,
  and any sequence of start and stop calls in which the join of every stop returns with
  the thread ended. Then at most one heartbeat thread is alive after every prefix of the
  sequence. Moreover a second start in succession is a no-op, and after the two starts
  exactly one thread is alive.
\<close>

theorem at_most_one_thread_when_joins_succeed:
  assumes "\<not> running (self p)" and "alive p = []" and "list_all joined cs"
  shows "length (alive (run_calls (take n cs) p)) \<le> 1
       \<and> start_heartbeat_loop (start_heartbeat_loop p) = start_heartbeat_loop p
       \<and> alive (start_heartbeat_loop (start_heartbeat_loop p)) = [spawned p]"
proof -
  have "loop_inv p" using assms(1,2) by (simp add: loop_inv_def)
  then have "loop_inv (run_calls (take n cs) p)"
    using assms(3) by (simp add: loop_inv_calls list_all_take)
  then have "length (alive (run_calls (take n cs) p)) \<le> 1" by (rule loop_inv_bound)
  moreover have "start_heartbeat_loop (start_heartbeat_loop p) = start_heartbeat_loop p"
    by (simp add: start_heartbeat_loop_def)
  moreover have "alive (start_heartbeat_loop (start_heartbeat_loop p)) = [spawned p]"
    using assms(1,2) by (simp add: start_heartbeat_loop_def)
  ultimately show ?thesis by simp
qed

theorem at_most_one_thread_when_joins_succeed_witness:
  "\<not> running (self (new_process example_client))
   \<and> alive (new_process example_client) = []
   \<and> list_all joined [Start, Start, Stop True, Start, Stop True]
   \<and> length (alive (run_calls (take 4 [Start, Start, Stop True, Start, Stop True])
        (new_process example_client))) \<le> 1
   \<and> alive (start_heartbeat_loop (start_heartbeat_loop (new_process example_client))) = [0]"
  using at_most_one_thread_when_joins_succeed
    [of "new_process example_client" "[Start, Start, Stop True, Start, Stop True]" 4]
  by (simp add: fresh_process start_heartbeat_loop_def)

section \<open>The loop survives failing heartbeats\<close>

lemma try_heartbeat_fails:
  assumes "attempt_fails env (self p)"
  shows "\<exists>e q. try_heartbeat cb env t p = (None, q) \<and> self q = self p \<and> alive q = alive p
             \<and> stdout q = stdout p @ [HeartbeatFailed e]"
  using assms
  by (auto simp add: attempt_fails_def try_heartbeat_def heartbeat_def Let_def
      split: sum.splits if_splits dest: py_get_Exception py_getitem_Exception)

lemma try_heartbeat_succeeds:
  assumes "attempt_succeeds env (self p)" and "truthy (service_id (self p))"
  shows "\<exists>q. try_heartbeat cb env t p = (None, q) \<and> self q = self p \<and> alive q = alive p
             \<and> stdout q = stdout p"
  using assms
  by (auto simp add: attempt_succeeds_def try_heartbeat_def heartbeat_def
      heartbeat_signals_def Let_def split: sum.splits if_splits)

text \<open>
  Any number of failing attempts in a row: the loop consumes them all, prints one line
  for each, and goes on from a process whose client and threads are unchanged.
\<close>

lemma loop_failures:
  assumes "running (self p)"
    and "list_all (\<lambda>env. attempt_fails env (self p) \<and> wait_returns env (self p)) envs"
  shows "\<exists>errs q. length errs = length envs \<and> self q = self p \<and> alive q = alive p
             \<and> stdout q = stdout p @ map HeartbeatFailed errs
             \<and> (\<forall>more. heartbeat_loop cb t (envs @ more) p = heartbeat_loop cb t more q)"
  using assms
proof (induction envs arbitrary: p)
  case Nil
  then show ?case by (intro exI[of _ "[]"] exI[of _ p]) simp
next
  case (Cons env envs)
  from Cons.prems obtain e q where
    q: "try_heartbeat cb env t p = (None, q)" "self q = self p" "alive q = alive p"
       "stdout q = stdout p @ [HeartbeatFailed e]"
    using try_heartbeat_fails[of env p cb t] by auto
  from Cons.prems have w: "wait_returns env (self p)" by simp
  have step: "heartbeat_loop cb t (env # (envs @ more)) p
                = heartbeat_loop cb t (envs @ more) q" for more
    using Cons.prems(1) q w by (simp add: wait_returns_def split: sum.splits)
  from Cons.prems q have "running (self q)"
    and "list_all (\<lambda>env. attempt_fails env (self q) \<and> wait_returns env (self q)) envs"
    by simp_all
  from Cons.IH[OF this] obtain errs r where
    r: "length errs = length envs" "self r = self q" "alive r = alive q"
       "stdout r = stdout q @ map HeartbeatFailed errs"
       "\<forall>more. heartbeat_loop cb t (envs @ more) q = heartbeat_loop cb t more r"
    by blast
  show ?case
    by (intro exI[of _ "e # errs"] exI[of _ r])
       (simp add: r q step del: heartbeat_loop.simps)
qed

text \<open>
  Claim C7. The loop of a registered client is running. It makes any number of attempts
  that raise an exception while the sample is built, on the network, from the server's
  status or while the answer is parsed, each followed by a wait that returns. Then the
  loop is still going (it neither exited nor let an exception out), the client
  (\<^verbatim>\<open>_running\<close> included) and the threads alive are as at the start, and one line was
  printed for each failure. A successful attempt after them completes the same way:
  the loop is still going, client and threads are unchanged, nothing more is printed.
\<close>

theorem loop_survives_failed_heartbeats:
  assumes "running (self p)" and "truthy (service_id (self p))"
    and "list_all (\<lambda>env. attempt_fails env (self p) \<and> wait_returns env (self p)) envs"
    and "attempt_succeeds ok (self p)" and "wait_returns ok (self p)"
  shows "fst (heartbeat_loop cb t envs p) = Pending
       \<and> self (snd (heartbeat_loop cb t envs p)) = self p
       \<and> alive (snd (heartbeat_loop cb t envs p)) = alive p
       \<and> (\<exists>errs. length errs = length envs
            \<and> stdout (snd (heartbeat_loop cb t envs p))
                = stdout p @ map HeartbeatFailed errs)
       \<and> fst (heartbeat_loop cb t (envs @ [ok]) p) = Pending
       \<and> self (snd (heartbeat_loop cb t (envs @ [ok]) p)) = self p
       \<and> alive (snd (heartbeat_loop cb t (envs @ [ok]) p)) = alive p
       \<and> stdout (snd (heartbeat_loop cb t (envs @ [ok]) p))
           = stdout (snd (heartbeat_loop cb t envs p))"
proof -
  from loop_failures[OF assms(1,3), of cb t] obtain errs q where
    q: "length errs = length envs" "self q = self p" "alive q = alive p"
       "stdout q = stdout p @ map HeartbeatFailed errs"
       "\<forall>more. heartbeat_loop cb t (envs @ more) p = heartbeat_loop cb t more q"
    by blast
  have run: "running (self q)" using assms(1) q(2) by simp
  from q(5) have "heartbeat_loop cb t (envs @ []) p = heartbeat_loop cb t [] q" by blast
  then have a: "heartbeat_loop cb t envs p = (Pending, q)" using run by simp
  from try_heartbeat_succeeds[of ok q cb t] assms(2,4) q(2)
  obtain r where
    r: "try_heartbeat cb ok t q = (None, r)" "self r = self p" "alive r = alive q"
       "stdout r = stdout q"
    by auto
  have "heartbeat_loop cb t [ok] q = (Pending, r)"
    using run r assms(1,5) by (simp add: wait_returns_def split: sum.splits)
  then have b: "heartbeat_loop cb t (envs @ [ok]) p = (Pending, r)" using q(5) by simp
  have c: "\<exists>errs. length errs = length envs
            \<and> stdout (snd (heartbeat_loop cb t envs p)) = stdout p @ map HeartbeatFailed errs"
    using q(1,4) a by auto
  show ?thesis using c by (simp add: a b q(1-4) r del: heartbeat_loop.simps)
qed

theorem loop_survives_failed_heartbeats_witness:
  "running (self looping)
   \<and> truthy (service_id (self looping))
   \<and> attempt_fails (example_env unreachable stdlib_time_utcnow) (self looping)
   \<and> attempt_fails (example_env unreachable some_timestamp) (self looping)
   \<and> attempt_fails (example_env server_error some_timestamp) (self looping)
   \<and> attempt_succeeds (example_env (ok_response quiet) some_timestamp) (self looping)
   \<and> fst (heartbeat_loop no_callbacks 0
        ([example_env unreachable stdlib_time_utcnow, example_env unreachable some_timestamp,
          example_env server_error some_timestamp]
         @ [example_env (ok_response quiet) some_timestamp]) looping) = Pending
   \<and> self (snd (heartbeat_loop no_callbacks 0
        ([example_env unreachable stdlib_time_utcnow, example_env unreachable some_timestamp,
          example_env server_error some_timestamp]
         @ [example_env (ok_response quiet) some_timestamp]) looping)) = self looping"
proof -
  have h1: "running (self looping)" and h2: "truthy (service_id (self looping))"
    by (simp_all add: looping_self)
  have h3: "list_all (\<lambda>env. attempt_fails env (self looping) \<and> wait_returns env (self looping))
      [example_env unreachable stdlib_time_utcnow, example_env unreachable some_timestamp,
       example_env server_error some_timestamp]"
    by (simp add: example_attempts)
  have h4: "attempt_succeeds (example_env (ok_response quiet) some_timestamp) (self looping)"
    and h5: "wait_returns (example_env (ok_response quiet) some_timestamp) (self looping)"
    by (simp_all add: example_attempts)
  from loop_survives_failed_heartbeats [OF h1 h2 h3 h4 h5, of no_callbacks 0] h1 h2
  show ?thesis
    by (simp add: example_attempts del: heartbeat_loop.simps)
qed

section \<open>A drain request without a hook\<close>

text \<open>
  What the whole path does in the heartbeat thread once a heartbeat has been sent and
  answered with a drain request: \<^verbatim>\<open>heartbeat\<close> raises the \<^verbatim>\<open>RuntimeError\<close> of the join,
  the loop prints it as a failed heartbeat, and its next test ends the thread.
\<close>

lemma drain_in_loop_thread:
  assumes "on_config_update cb = None" and "on_shutdown cb = None"
    and "running (self p)" and "thread (self p) = Some t"
    and "truthy (service_id (self p))"
    and "heartbeat_request env [] (self p) = Inr sample"
    and "post_json env (server_url (self p) @ ''/api/v1/services/heartbeat'')
           (asdict_HeartbeatRequest sample) 5 = Inr (PDict kvs)"
    and "map_of kvs ''code'' = Some (PInt 0)"
    and "map_of kvs ''data'' = Some (PDict d)"
    and "map_of d ''config_update'' = None"
    and "map_of d ''drain_requested'' = Some (PBool True)"
    and "wait_returns env ((self p)\<lparr>running := False, stop_event := True\<rparr>)"
  shows "fst (heartbeat cb env (LoopThread t) [] p)
           = Inl (RuntimeError ''cannot join current thread'')
       \<and> fst (heartbeat_loop cb t (env # envs) p) = Exited
       \<and> stdout (snd (heartbeat_loop cb t (env # envs) p))
           = stdout p @ [DrainRequested,
                         HeartbeatFailed (RuntimeError ''cannot join current thread'')]"
  using assms
  by (cases envs)
     (simp_all add: heartbeat_def heartbeat_signals_def handle_drain_request_def
        stop_heartbeat_loop_def Thread_join_def try_heartbeat_def wait_returns_def
        thread_end_def Let_def split: sum.splits)

lemma drain_example:
  "fst (heartbeat_loop no_callbacks 0 [example_env (ok_response drain) some_timestamp]
          looping) = Exited
   \<and> stdout (snd (heartbeat_loop no_callbacks 0
          [example_env (ok_response drain) some_timestamp] looping))
       = stdout looping @ [DrainRequested,
                           HeartbeatFailed (RuntimeError ''cannot join current thread'')]"
proof -
  have sample: "heartbeat_request (example_env (ok_response drain) some_timestamp) []
                  (self looping) = Inr example_sample"
    by (simp add: heartbeat_request_def HeartbeatRequest_post_init_def
        get_gpu_utilization_def kwargs_get_def example_env_def some_timestamp_def
        example_sample_def looping_self)
  have answer: "post_json (example_env (ok_response drain) some_timestamp)
                  (server_url (self looping) @ ''/api/v1/services/heartbeat'')
                  (asdict_HeartbeatRequest example_sample) 5
                = Inr (PDict [(''code'', PInt 0),
                              (''data'', PDict [(''drain_requested'', PBool True)])])"
    by (simp add: post_json_def example_post ok_response_def drain_def raise_for_status_def
        response_json_def)
  have wait: "wait_returns (example_env (ok_response drain) some_timestamp)
                ((self looping)\<lparr>running := False, stop_event := True\<rparr>)"
    by (simp add: wait_returns_def example_env_def)
  show ?thesis
    using drain_in_loop_thread
      [of no_callbacks looping 0 "example_env (ok_response drain) some_timestamp"
          example_sample
          "[(''code'', PInt 0), (''data'', PDict [(''drain_requested'', PBool True)])]"
          "[(''drain_requested'', PBool True)]" "[]", OF _ _ _ _ _ sample answer _ _ _ _ wait]
    by (simp add: no_callbacks_def looping_self del: heartbeat_loop.simps)
qed

text \<open>
  Claim C8. The claim says that the self-stop triggered by a drain request without a hook
  does not error and skips the join of the loop's own thread. In the code, when the
  heartbeat thread \<open>t\<close> itself runs \<^verbatim>\<open>_handle_drain_request\<close> with no hook registered, the
  loop running and \<^verbatim>\<open>_thread\<close> being \<open>t\<close>, \<^verbatim>\<open>stop_heartbeat_loop\<close> clears \<^verbatim>\<open>_running\<close>, sets
  the stop event and then joins \<open>t\<close> from \<open>t\<close>: the call raises
  \<^verbatim>\<open>RuntimeError("cannot join current thread")\<close>.
\<close>

theorem self_stop_raises_on_self_join:
  assumes "on_shutdown cb = None" and "running (self p)" and "thread (self p) = Some t"
  shows "handle_drain_request cb env (LoopThread t) p =
           (Some (RuntimeError ''cannot join current thread''),
            p\<lparr>self := (self p)\<lparr>running := False, stop_event := True\<rparr>,
              stdout := stdout p @ [DrainRequested]\<rparr>)
       \<and> stop_heartbeat_loop ended (LoopThread t) p =
           (Some (RuntimeError ''cannot join current thread''),
            p\<lparr>self := (self p)\<lparr>running := False, stop_event := True\<rparr>\<rparr>)"
  using assms
  by (simp add: handle_drain_request_def stop_heartbeat_loop_def Thread_join_def Let_def)

theorem self_stop_raises_on_self_join_witness:
  "on_shutdown no_callbacks = None \<and> running (self looping) \<and> thread (self looping) = Some 0
   \<and> fst (handle_drain_request no_callbacks (example_env (ok_response drain) some_timestamp)
        (LoopThread 0) looping) = Some (RuntimeError ''cannot join current thread'')
   \<and> fst (stop_heartbeat_loop True (LoopThread 0) looping)
       = Some (RuntimeError ''cannot join current thread'')"
  using self_stop_raises_on_self_join
    [of no_callbacks looping 0 "example_env (ok_response drain) some_timestamp" True]
  by (simp add: no_callbacks_def looping_self)

end
